theory Spec2Isabelle
  imports Main
begin

section \<open>QueueService (packages/ocular/src/services/queue.ts)\<close>

text \<open>
  A shallow embedding of the Kafka-backed queue service. The service is written against
  three collaborators that are not part of the file: the broker client (kafkajs), the
  logger and the JSON serializer. Each call to a collaborator is recorded as an event
  of a trace, and what the collaborator answers is taken from an environment, as a
  function of the trace so far, so that every theorem holds for every behaviour of the
  broker, of the serializer and of the caller's handler. What is thrown or rejected is
  any value; the catch blocks of the service read its \<open>message\<close>, and that read throws on
  \<open>null\<close> and \<open>undefined\<close>.
\<close>

subsection \<open>Values of the language\<close>

text \<open>An Error object: it has a \<open>message\<close>.\<close>

datatype error = Error (message: string) | TypeError (message: string)

text \<open>
  What a \<open>throw\<close> or a rejection carries is any value: an Error object, \<open>null\<close> or
  \<open>undefined\<close>, or another value (a string, a number, an object without a \<open>message\<close>).
\<close>

datatype thrown = ErrorObject error | Nullish | OtherValue

text \<open>
  Reading \<open>error.message\<close> inside a template string: on \<open>null\<close> and \<open>undefined\<close> the read
  throws a TypeError; on a value without the property it gives \<open>undefined\<close>, printed as
  such.
\<close>

fun read_message :: "thrown \<Rightarrow> thrown + string" where
  "read_message (ErrorObject e) = Inr (message e)"
| "read_message Nullish = Inl (ErrorObject (TypeError ''Cannot read properties of null''))"
| "read_message OtherValue = Inr ''undefined''"

text \<open>A promise, once settled.\<close>

datatype ('e, 'a) promise = Fulfilled 'a | Rejected 'e

text \<open>
  What calling a function gives: it throws before returning, or it returns a promise.
\<close>

datatype ('e, 'a) outcome = Throws 'e | Returns "('e, 'a) promise"

text \<open>
  The broker client (kafkajs) throws and rejects with Error objects only; code of the
  caller (the handler, a document's \<open>toJSON\<close>) can throw and reject with any value.
\<close>

type_synonym 'a completion = "(error, 'a) outcome"

definition kafkajs :: "('h \<Rightarrow> 'a completion) \<Rightarrow> 'h \<Rightarrow> (thrown, 'a) outcome" where
  "kafkajs f h =
     (case f h of
        Throws e \<Rightarrow> Throws (ErrorObject e)
      | Returns (Rejected e) \<Rightarrow> Returns (Rejected (ErrorObject e))
      | Returns (Fulfilled v) \<Rightarrow> Returns (Fulfilled v))"

subsection \<open>Data of the broker client\<close>

text \<open>kafkajs \<open>Message\<close>: the payload is a buffer or null.\<close>

record Message =
  msg_value :: "string option"

record TopicMessages =
  tm_topic :: string
  tm_messages :: "Message list"

record ProducerBatch =
  topicMessages :: "TopicMessages list"

record Batch =
  batch_messages :: "Message list"

record EachMessagePayload =
  em_topic :: string
  em_partition :: nat
  em_message :: Message

record ConsumerContext =
  groupId :: string

text \<open>
  The consumer session returned by \<open>kafkaClient_.consumer(config)\<close>: the configuration it
  was created with, and the position in the trace at which it was created.
\<close>

record KafkaConsumer =
  session_id :: nat
  cfg_groupId :: string
  cfg_sessionTimeout :: "nat option"

text \<open>The argument of \<open>kafkaConsumer.run\<close>.\<close>

datatype run_config = RunEachMessage | RunEachBatch (eachBatchAutoResolve: bool)

record RegistryEntry =
  entry_topicName :: string
  entry_consumerId :: string
  entry_consumer :: KafkaConsumer

subsection \<open>Events and state\<close>

datatype 'd event =
    ProducerConnect
  | ProducerSend string "Message list"
  | ProducerSendBatch ProducerBatch
  | ProducerDisconnect
  | ClientConsumer string "nat option"
  | ConsumerConnect KafkaConsumer
  | ConsumerSubscribe KafkaConsumer string bool
  | ConsumerRun KafkaConsumer run_config
  | HandlerCall "'d list" string
  | Heartbeat
  | LoggerError string
  | LoggerActivity string
  | LoggerProgress nat string
  | LoggerSuccess nat string
  | ConsoleLog string
  | UnhandledRejection thrown

text \<open>
  The fields of the service object that the methods use: \<open>this_producer\<close> (the field
  \<open>producer_\<close>) is false when the field is undefined, which happens when the constructor's
  \<open>kafkaClient.producer()\<close> threw (the constructor catches that error);
  \<open>this_consumers\<close> is the registry kept by the base class.
\<close>

record 'd state =
  trace :: "'d event list"
  this_producer :: bool
  this_consumers :: "RegistryEntry list"
  ulid_count :: nat

text \<open>
  The caller's handler: \<open>(documents, topic) => Promise<void>\<close>. It may throw, and its promise
  may be rejected, with any value.
\<close>

type_synonym 'd Consumer = "'d list \<Rightarrow> string \<Rightarrow> 'd event list \<Rightarrow> (thrown, unit) outcome"

text \<open>What \<open>typeof consumer\<close> distinguishes.\<close>

datatype 'd consumer_arg = Function "'d Consumer" | NotAFunction

text \<open>
  The collaborators. \<open>JSON.stringify\<close> runs a document's \<open>toJSON\<close>, which can throw any
  value; \<open>JSON.parse\<close> throws a SyntaxError.
\<close>

record 'd env =
  JSON_stringify :: "'d \<Rightarrow> thrown + string option"
  JSON_parse :: "string \<Rightarrow> error + 'd"
  producer_connect :: "'d event list \<Rightarrow> unit completion"
  producer_send :: "string \<Rightarrow> Message list \<Rightarrow> 'd event list \<Rightarrow> unit completion"
  producer_sendBatch :: "ProducerBatch \<Rightarrow> 'd event list \<Rightarrow> unit completion"
  producer_disconnect :: "'d event list \<Rightarrow> unit completion"
  client_consumer :: "string \<Rightarrow> nat option \<Rightarrow> 'd event list \<Rightarrow> error option"
  consumer_connect :: "KafkaConsumer \<Rightarrow> 'd event list \<Rightarrow> unit completion"
  consumer_subscribe :: "KafkaConsumer \<Rightarrow> string \<Rightarrow> bool \<Rightarrow> 'd event list \<Rightarrow> unit completion"
  consumer_run :: "KafkaConsumer \<Rightarrow> run_config \<Rightarrow> 'd event list \<Rightarrow> unit completion"
  heartbeat :: "'d event list \<Rightarrow> unit completion"
  ulid :: "nat \<Rightarrow> string"

subsection \<open>Control flow: sequencing, throw, try/catch, await\<close>

text \<open>
  An async function is a state transformer that ends with a thrown value (a rejection of
  its promise) or with a result.
\<close>

type_synonym ('d, 'a) prog = "'d state \<Rightarrow> (thrown + 'a) \<times> 'd state"

definition throwE :: "thrown \<Rightarrow> ('d, 'a) prog" where
  "throwE e s = (Inl e, s)"

definition bindE :: "('d, 'a) prog \<Rightarrow> ('a \<Rightarrow> ('d, 'b) prog) \<Rightarrow> ('d, 'b) prog" where
  "bindE m f s = (case m s of (Inl e, s') \<Rightarrow> (Inl e, s') | (Inr v, s') \<Rightarrow> f v s')"

definition thenE :: "('d, 'a) prog \<Rightarrow> ('d, 'b) prog \<Rightarrow> ('d, 'b) prog" where
  "thenE m n = bindE m (\<lambda>_. n)"

definition tryE :: "('d, 'a) prog \<Rightarrow> (thrown \<Rightarrow> ('d, 'a) prog) \<Rightarrow> ('d, 'a) prog" where
  "tryE m h s = (case m s of (Inl e, s') \<Rightarrow> h e s' | (Inr v, s') \<Rightarrow> (Inr v, s'))"

definition liftE :: "thrown + 'a \<Rightarrow> ('d, 'a) prog" where
  "liftE r s = (r, s)"

text \<open>A computation of the language that throws an Error object when it fails.\<close>

definition built_in :: "error + 'a \<Rightarrow> ('d, 'a) prog" where
  "built_in r s = (case r of Inl e \<Rightarrow> (Inl (ErrorObject e), s) | Inr v \<Rightarrow> (Inr v, s))"

definition emit :: "'d event \<Rightarrow> ('d, unit) prog" where
  "emit ev s = (Inr (), s\<lparr>trace := trace s @ [ev]\<rparr>)"

text \<open>\<open>await f(...)\<close>: the call is made; a throw or a rejection is thrown here.\<close>

definition await :: "'d event \<Rightarrow> ('d event list \<Rightarrow> (thrown, 'a) outcome) \<Rightarrow> ('d, 'a) prog" where
  "await ev f s =
     (case f (trace s) of
        Throws e \<Rightarrow> (Inl e, s\<lparr>trace := trace s @ [ev]\<rparr>)
      | Returns (Rejected e) \<Rightarrow> (Inl e, s\<lparr>trace := trace s @ [ev]\<rparr>)
      | Returns (Fulfilled v) \<Rightarrow> (Inr v, s\<lparr>trace := trace s @ [ev]\<rparr>))"

text \<open>
  \<open>f(...)\<close> as a statement, its promise dropped: only a throw of the call itself is thrown
  here; a rejection reaches no handler.
\<close>

definition floating :: "'d event \<Rightarrow> ('d event list \<Rightarrow> (thrown, 'a) outcome) \<Rightarrow> ('d, unit) prog" where
  "floating ev f s =
     (case f (trace s) of
        Throws e \<Rightarrow> (Inl e, s\<lparr>trace := trace s @ [ev]\<rparr>)
      | Returns (Rejected e) \<Rightarrow> (Inr (), s\<lparr>trace := trace s @ [ev, UnhandledRejection e]\<rparr>)
      | Returns (Fulfilled v) \<Rightarrow> (Inr (), s\<lparr>trace := trace s @ [ev]\<rparr>))"

text \<open>
  \<open>f(...).catch(h)\<close> as a statement: a rejection runs \<open>h\<close>, whose run is placed right after
  the call in the trace; when \<open>h\<close> itself throws, the promise of \<open>catch\<close> is rejected and
  reaches no handler.
\<close>

definition dot_catch ::
  "'d event \<Rightarrow> ('d event list \<Rightarrow> (thrown, 'a) outcome) \<Rightarrow> (thrown \<Rightarrow> ('d, unit) prog) \<Rightarrow>
   ('d, unit) prog" where
  "dot_catch ev f h s =
     (case f (trace s) of
        Throws e \<Rightarrow> (Inl e, s\<lparr>trace := trace s @ [ev]\<rparr>)
      | Returns (Rejected e) \<Rightarrow>
          (case h e (s\<lparr>trace := trace s @ [ev]\<rparr>) of
             (Inl e', s') \<Rightarrow> (Inr (), s'\<lparr>trace := trace s' @ [UnhandledRejection e']\<rparr>)
           | (Inr u, s') \<Rightarrow> (Inr (), s'))
      | Returns (Fulfilled v) \<Rightarrow> (Inr (), s\<lparr>trace := trace s @ [ev]\<rparr>))"

text \<open>\<open>xs.map(f)\<close> with a callback that may throw: the first throw ends the map.\<close>

fun map_throwing :: "('a \<Rightarrow> 'e + 'b) \<Rightarrow> 'a list \<Rightarrow> 'e + 'b list" where
  "map_throwing f [] = Inr []"
| "map_throwing f (x # xs) =
     (case f x of
        Inl e \<Rightarrow> Inl e
      | Inr y \<Rightarrow> (case map_throwing f xs of Inl e \<Rightarrow> Inl e | Inr ys \<Rightarrow> Inr (y # ys)))"

text \<open>A number inside a template string: its decimal digits.\<close>

definition digit_char :: "nat \<Rightarrow> char" where
  "digit_char d = ''0123456789'' ! d"

function show_nat :: "nat \<Rightarrow> string" where
  "show_nat n = (if n < 10 then [digit_char n] else show_nat (n div 10) @ [digit_char (n mod 10)])"
  by pat_completeness auto
termination
  by (relation "measure id") auto

subsection \<open>Logger and registry\<close>

text \<open>
  Modelled from the spec: the logger (\<open>Logger\<close> of @ocular/types) is not in the file. The
  spec gives it \<open>error(msg)\<close> and the triple \<open>activity\<close>, \<open>progress\<close>, \<open>success\<close>, used only
  for observability; an activity is identified here by its position in the trace.
\<close>

definition logger_error :: "string \<Rightarrow> ('d, unit) prog" where
  "logger_error msg = emit (LoggerError msg)"

definition logger_activity :: "string \<Rightarrow> ('d, nat) prog" where
  "logger_activity msg s = (Inr (length (trace s)), s\<lparr>trace := trace s @ [LoggerActivity msg]\<rparr>)"

definition logger_progress :: "nat \<Rightarrow> string \<Rightarrow> ('d, unit) prog" where
  "logger_progress a msg = emit (LoggerProgress a msg)"

definition logger_success :: "nat \<Rightarrow> string \<Rightarrow> ('d, unit) prog" where
  "logger_success a msg = emit (LoggerSuccess a msg)"

text \<open>
  Modelled from the spec: \<open>storeConsumers\<close> is a method of \<open>AbstractQueueService\<close>, which is
  not in the file. The spec's registerConsumer appends the entry to the process-wide
  table, with no deduplication.
\<close>

definition storeConsumers :: "RegistryEntry \<Rightarrow> ('d, unit) prog" where
  "storeConsumers entry s = (Inr (), s\<lparr>this_consumers := this_consumers s @ [entry]\<rparr>)"

text \<open>\<open>ulid()\<close>: a fresh identifier at each call.\<close>

definition next_ulid :: "'d env \<Rightarrow> ('d, string) prog" where
  "next_ulid env s = (Inr (ulid env (ulid_count s)), s\<lparr>ulid_count := Suc (ulid_count s)\<rparr>)"

text \<open>Reading a method of \<open>this.producer_\<close> throws a TypeError when the field is undefined.\<close>

definition producer_method :: "('d, unit) prog" where
  "producer_method s =
     (if this_producer s then (Inr (), s)
      else (Inl (ErrorObject (TypeError ''Cannot read properties of undefined'')), s))"

text \<open>
  \<open>this.kafkaClient_.consumer(config)\<close>: a synchronous call that throws or returns a
  consumer session.
\<close>

definition kafkaClient_consumer :: "'d env \<Rightarrow> string \<Rightarrow> nat option \<Rightarrow> ('d, KafkaConsumer) prog" where
  "kafkaClient_consumer env gid timeout s =
     (case client_consumer env gid timeout (trace s) of
        Some e \<Rightarrow> (Inl (ErrorObject e), s\<lparr>trace := trace s @ [ClientConsumer gid timeout]\<rparr>)
      | None \<Rightarrow>
          (Inr \<lparr>session_id = length (trace s), cfg_groupId = gid, cfg_sessionTimeout = timeout\<rparr>,
           s\<lparr>trace := trace s @ [ClientConsumer gid timeout]\<rparr>))"

subsection \<open>Producer: send and sendBatch\<close>



subsection \<open>Consumers: subscribe and subscribeBatch\<close>

text \<open>\<open>JSON.parse(message.value.toString())\<close>: a null payload has no \<open>toString\<close>.\<close>

definition deserialize :: "'d env \<Rightarrow> Message \<Rightarrow> error + 'd" where
  "deserialize env m =
     (case msg_value m of
        None \<Rightarrow> Inl (TypeError ''Cannot read properties of null'')
      | Some v \<Rightarrow> JSON_parse env v)"

text \<open>The \<open>eachMessage\<close> callback that \<open>subscribe\<close> passes to \<open>run\<close>.\<close>

definition eachMessage :: "'d env \<Rightarrow> 'd Consumer \<Rightarrow> EachMessagePayload \<Rightarrow> ('d, unit) prog" where
  "eachMessage env consumer payload =
     bindE (built_in (deserialize env (em_message payload))) (\<lambda>doc.
       dot_catch (HandlerCall [doc] (em_topic payload)) (consumer [doc] (em_topic payload))
         (\<lambda>error. bindE (liftE (read_message error)) (\<lambda>msg.
            logger_error (''Error processing message: '' @ msg))))"

definition subscribe ::
  "'d env \<Rightarrow> string \<Rightarrow> 'd consumer_arg \<Rightarrow> ConsumerContext \<Rightarrow> ('d, unit) prog" where
  "subscribe env topicName consumer context =
     (case consumer of
        NotAFunction \<Rightarrow> throwE (ErrorObject (Error ''Subscriber must be a function''))
      | Function handler \<Rightarrow>
          thenE (emit (ConsoleLog (''Subscribing to topic '' @ topicName)))
         (bindE (kafkaClient_consumer env (groupId context) None) (\<lambda>kafkaConsumer.
          thenE (await (ConsumerConnect kafkaConsumer) (kafkajs (consumer_connect env kafkaConsumer)))
         (thenE (await (ConsumerSubscribe kafkaConsumer topicName False)
                   (kafkajs (consumer_subscribe env kafkaConsumer topicName False)))
         (thenE (floating (ConsumerRun kafkaConsumer RunEachMessage)
                   (kafkajs (consumer_run env kafkaConsumer RunEachMessage)))
         (bindE (next_ulid env) (\<lambda>randId.
          storeConsumers
            \<lparr>entry_topicName = topicName,
             entry_consumerId = topicName @ ''-'' @ randId,
             entry_consumer = kafkaConsumer\<rparr>)))))))"

text \<open>The \<open>for\<close> loop of the \<open>eachBatch\<close> callback, from index \<open>i\<close>.\<close>

function batch_loop ::
  "'d env \<Rightarrow> 'd Consumer \<Rightarrow> string \<Rightarrow> nat \<Rightarrow> nat \<Rightarrow> 'd list \<Rightarrow> nat \<Rightarrow> ('d, unit) prog" where
  "batch_loop env consumer topicName activity n docs i s =
     (if i < length docs then
        (case await (HandlerCall [docs ! i] topicName) (consumer [docs ! i] topicName) s of
           (Inl e, s1) \<Rightarrow> (Inl e, s1)
         | (Inr _, s1) \<Rightarrow>
             (case logger_progress activity
                     (''eachBatch: Indexed '' @ show_nat i @ '' messages Out of  Received ''
                        @ show_nat n @ '' messages in topic '' @ topicName @ ''\<newline>'') s1 of
                (Inl e, s2) \<Rightarrow> (Inl e, s2)
              | (Inr _, s2) \<Rightarrow>
                  (case await Heartbeat (kafkajs (heartbeat env)) s2 of
                     (Inl e, s3) \<Rightarrow> (Inl e, s3)
                   | (Inr _, s3) \<Rightarrow>
                       batch_loop env consumer topicName activity n docs (Suc i) s3)))
      else (Inr (), s))"
  by pat_completeness auto
termination
  by (relation "measure (\<lambda>(env, consumer, topicName, activity, n, docs, i, s). length docs - i)") auto

text \<open>The \<open>eachBatch\<close> callback that \<open>subscribeBatch\<close> passes to \<open>run\<close>.\<close>

definition eachBatch :: "'d env \<Rightarrow> 'd Consumer \<Rightarrow> string \<Rightarrow> Batch \<Rightarrow> ('d, unit) prog" where
  "eachBatch env consumer topicName batch =
     tryE
       (bindE (logger_activity
                 (''eachBatch: Batch Received '' @ show_nat (length (batch_messages batch))
                    @ '' messages in topic '' @ topicName @ ''\<newline>'')) (\<lambda>eachBatchProcessingActivity.
        bindE (built_in (map_throwing (deserialize env) (batch_messages batch))) (\<lambda>docs.
        thenE (batch_loop env consumer topicName eachBatchProcessingActivity
                 (length (batch_messages batch)) docs 0)
              (logger_success eachBatchProcessingActivity
                 (''eachBatch: Finished Batch Processing '' @ show_nat (length (batch_messages batch))
                    @ '' messages in topic '' @ topicName @ ''\<newline>'')))))
       (\<lambda>error. bindE (liftE (read_message error)) (\<lambda>msg.
          logger_error (''eachBatch: Error processing message: '' @ msg)))"

definition subscribeBatch ::
  "'d env \<Rightarrow> string \<Rightarrow> 'd consumer_arg \<Rightarrow> ConsumerContext \<Rightarrow> ('d, unit) prog" where
  "subscribeBatch env topicName consumer context =
     tryE
       (case consumer of
          NotAFunction \<Rightarrow> throwE (ErrorObject (Error ''Subscriber must be a function''))
        | Function handler \<Rightarrow>
            bindE (kafkaClient_consumer env (groupId context) (Some 60000)) (\<lambda>kafkaConsumer.
            thenE (floating (ConsumerConnect kafkaConsumer) (kafkajs (consumer_connect env kafkaConsumer)))
           (thenE (floating (ConsumerSubscribe kafkaConsumer topicName False)
                     (kafkajs (consumer_subscribe env kafkaConsumer topicName False)))
           (thenE (floating (ConsumerRun kafkaConsumer (RunEachBatch True))
                     (kafkajs (consumer_run env kafkaConsumer (RunEachBatch True))))
           (bindE (next_ulid env) (\<lambda>randId.
            storeConsumers
              \<lparr>entry_topicName = topicName,
               entry_consumerId = topicName @ ''-'' @ randId,
               entry_consumer = kafkaConsumer\<rparr>))))))
       (\<lambda>error. bindE (liftE (read_message error)) (\<lambda>msg.
          logger_error (''subscribeBatch: Error subscribing to topic: '' @ msg)))"

text \<open>The events a call adds to the trace.\<close>

definition new_events :: "'d state \<Rightarrow> 'd state \<Rightarrow> 'd event list" where
  "new_events s s' = drop (length (trace s)) (trace s')"

subsection \<open>Observations on traces\<close>

text \<open>The error a call ends with, thrown or as a rejection, if any.\<close>

definition failure_of :: "('e, 'a) outcome \<Rightarrow> 'e option" where
  "failure_of c =
     (case c of Throws e \<Rightarrow> Some e | Returns (Rejected e) \<Rightarrow> Some e | Returns (Fulfilled v) \<Rightarrow> None)"

text \<open>What a dropped promise leaves in the trace.\<close>

definition unhandled :: "'a completion \<Rightarrow> 'd event list" where
  "unhandled c =
     (case c of Returns (Rejected e) \<Rightarrow> [UnhandledRejection (ErrorObject e)] | _ \<Rightarrow> [])"


fun logged_errors :: "'d event list \<Rightarrow> string list" where
  "logged_errors [] = []"
| "logged_errors (LoggerError msg # es) = msg # logged_errors es"
| "logged_errors (_ # es) = logged_errors es"

definition handler_calls :: "'d event list \<Rightarrow> ('d list \<times> string) list" where
  "handler_calls es = concat (map (\<lambda>ev. case ev of HandlerCall ds t \<Rightarrow> [(ds, t)] | _ \<Rightarrow> []) es)"

definition heartbeats :: "'d event list \<Rightarrow> nat" where
  "heartbeats es = length (filter (\<lambda>ev. case ev of Heartbeat \<Rightarrow> True | _ \<Rightarrow> False) es)"

text \<open>
  An event on a consumer session is scoped to the context and the topic: the session
  belongs to the group of the context, and a subscription is for the topic, from the
  tail.
\<close>

fun session_scoped :: "ConsumerContext \<Rightarrow> string \<Rightarrow> 'd event \<Rightarrow> bool" where
  "session_scoped c t (ClientConsumer g timeout) = (g = groupId c)"
| "session_scoped c t (ConsumerConnect k) = (cfg_groupId k = groupId c)"
| "session_scoped c t (ConsumerSubscribe k tp fb) = (cfg_groupId k = groupId c \<and> tp = t \<and> \<not> fb)"
| "session_scoped c t (ConsumerRun k cfg) = (cfg_groupId k = groupId c)"
| "session_scoped c t _ = True"

text \<open>
  A handler call passes exactly one document, one of \<open>docs\<close>, and the topic \<open>t\<close>.
\<close>

fun singleton_call :: "'d list \<Rightarrow> string \<Rightarrow> 'd event \<Rightarrow> bool" where
  "singleton_call docs t (HandlerCall ds tp) = (length ds = 1 \<and> tp = t \<and> (\<exists>d\<in>set docs. ds = [d]))"
| "singleton_call docs t _ = True"

text \<open>The documents of a delivery: none when a payload does not deserialize.\<close>

definition deserialized :: "'d env \<Rightarrow> Message list \<Rightarrow> 'd list" where
  "deserialized env ms = (case map_throwing (deserialize env) ms of Inl e \<Rightarrow> [] | Inr docs \<Rightarrow> docs)"


text \<open>The events of one iteration of the loop of \<open>eachBatch\<close> that runs to its end.\<close>

definition batch_round :: "string \<Rightarrow> nat \<Rightarrow> nat \<Rightarrow> 'd list \<Rightarrow> nat \<Rightarrow> 'd event list" where
  "batch_round topicName activity n docs i =
     [HandlerCall [docs ! i] topicName,
      LoggerProgress activity
        (''eachBatch: Indexed '' @ show_nat i @ '' messages Out of  Received ''
           @ show_nat n @ '' messages in topic '' @ topicName @ ''\<newline>''),
      Heartbeat]"

text \<open>
  The trace of the \<open>eachBatch\<close> callback at the moment iteration \<open>j\<close> of its loop begins,
  the iterations before \<open>j\<close> having run to their ends.
\<close>

definition history_before :: "'d state \<Rightarrow> string \<Rightarrow> Batch \<Rightarrow> 'd list \<Rightarrow> nat \<Rightarrow> 'd event list" where
  "history_before s topicName batch docs j =
     trace s @
     LoggerActivity
       (''eachBatch: Batch Received '' @ show_nat (length (batch_messages batch))
          @ '' messages in topic '' @ topicName @ ''\<newline>'') #
     concat (map (batch_round topicName (length (trace s)) (length (batch_messages batch)) docs)
               [0..<j])"

text \<open>
  Iteration \<open>j\<close> runs to its end: the handler resolves on message \<open>j\<close> and the heartbeat
  that follows resolves, each at the trace it is called at.
\<close>

definition iteration_resolves ::
  "'d env \<Rightarrow> 'd Consumer \<Rightarrow> 'd state \<Rightarrow> string \<Rightarrow> Batch \<Rightarrow> 'd list \<Rightarrow> nat \<Rightarrow> bool" where
  "iteration_resolves env consumer s topicName batch docs j \<longleftrightarrow>
     failure_of (consumer [docs ! j] topicName (history_before s topicName batch docs j)) = None \<and>
     failure_of (heartbeat env
       (history_before s topicName batch docs j @
        butlast (batch_round topicName (length (trace s)) (length (batch_messages batch)) docs j)))
       = None"

subsection \<open>A sample broker, for concrete runs\<close>

text \<open>
  Documents are strings that serialize to themselves; the payload \<open>{\<close> is not valid JSON.
  The broker accepts every call.
\<close>

definition demo_env :: "string env" where
  "demo_env =
     \<lparr>JSON_stringify = (\<lambda>d. Inr (Some d)),
      JSON_parse = (\<lambda>v. if v = ''{'' then Inl (Error ''Unexpected end of JSON input'') else Inr v),
      producer_connect = (\<lambda>h. Returns (Fulfilled ())),
      producer_send = (\<lambda>t ms h. Returns (Fulfilled ())),
      producer_sendBatch = (\<lambda>b h. Returns (Fulfilled ())),
      producer_disconnect = (\<lambda>h. Returns (Fulfilled ())),
      client_consumer = (\<lambda>g t h. None),
      consumer_connect = (\<lambda>k h. Returns (Fulfilled ())),
      consumer_subscribe = (\<lambda>k t fb h. Returns (Fulfilled ())),
      consumer_run = (\<lambda>k c h. Returns (Fulfilled ())),
      heartbeat = (\<lambda>h. Returns (Fulfilled ())),
      ulid = show_nat\<rparr>"

text \<open>Brokers that reject the publish, reject the consumer's connect, or refuse to create
  a consumer.\<close>

definition env_send_rejects :: "string env" where
  "env_send_rejects =
     demo_env\<lparr>producer_send := (\<lambda>t ms h. Returns (Rejected (Error ''broker rejected'')))\<rparr>"

definition env_connect_rejects :: "string env" where
  "env_connect_rejects =
     demo_env\<lparr>consumer_connect := (\<lambda>k h. Returns (Rejected (Error ''connection refused'')))\<rparr>"

definition env_consumer_throws :: "string env" where
  "env_consumer_throws =
     demo_env\<lparr>client_consumer := (\<lambda>g t h. Some (Error ''invalid groupId''))\<rparr>"

definition demo_state :: "string state" where
  "demo_state = \<lparr>trace = [], this_producer = True, this_consumers = [], ulid_count = 0\<rparr>"

definition demo_context :: ConsumerContext where
  "demo_context = \<lparr>groupId = ''g1''\<rparr>"

text \<open>A handler that always resolves, and one that rejects a given document with an Error.\<close>

definition demo_handler :: "string Consumer" where
  "demo_handler ds t h = Returns (Fulfilled ())"

definition handler_fails_on :: "string \<Rightarrow> string Consumer" where
  "handler_fails_on d ds t h =
     (if ds = [d] then Returns (Rejected (ErrorObject (Error ''indexing failed'')))
      else Returns (Fulfilled ()))"


definition env_toJSON_throws_null :: "string env" where
  "env_toJSON_throws_null = demo_env\<lparr>JSON_stringify := (\<lambda>d. Inl Nullish)\<rparr>"


definition demo_payload :: EachMessagePayload where
  "demo_payload = \<lparr>em_topic = ''docs'', em_partition = 0, em_message = \<lparr>msg_value = Some ''{id:1}''\<rparr>\<rparr>"

definition demo_batch :: Batch where
  "demo_batch =
     \<lparr>batch_messages = [\<lparr>msg_value = Some ''{id:1}''\<rparr>, \<lparr>msg_value = Some ''{id:2}''\<rparr>,
                        \<lparr>msg_value = Some ''{id:3}''\<rparr>]\<rparr>"

definition malformed_batch :: Batch where
  "malformed_batch =
     \<lparr>batch_messages = [\<lparr>msg_value = Some ''{id:1}''\<rparr>, \<lparr>msg_value = Some ''{''\<rparr>,
                        \<lparr>msg_value = Some ''{id:3}''\<rparr>]\<rparr>"

definition empty_batch :: Batch where
  "empty_batch = \<lparr>batch_messages = []\<rparr>"

section \<open>Properties\<close>

declare batch_loop.simps [simp del]

declare show_nat.simps [simp del]

subsection \<open>Symbolic execution of the control flow\<close>

lemma failure_of_kafkajs:
  "failure_of (kafkajs f h) = map_option ErrorObject (failure_of (f h))"
  by (simp add: kafkajs_def failure_of_def split: outcome.split promise.split)

lemma await_unit:
  "await ev (f :: 'd event list \<Rightarrow> (thrown, unit) outcome) s =
     (case failure_of (f (trace s)) of
        Some e \<Rightarrow> (Inl e, s\<lparr>trace := trace s @ [ev]\<rparr>)
      | None \<Rightarrow> (Inr (), s\<lparr>trace := trace s @ [ev]\<rparr>))"
  by (simp add: await_def failure_of_def split: outcome.split promise.split)

lemma bindE_exec:
  "bindE m g s = (case fst (m s) of Inl e \<Rightarrow> (Inl e, snd (m s)) | Inr v \<Rightarrow> g v (snd (m s)))"
  by (simp add: bindE_def split: prod.split sum.split)

lemma tryE_bindE_exec:
  "tryE (bindE m g) h s =
     (case fst (m s) of Inl e \<Rightarrow> h e (snd (m s)) | Inr v \<Rightarrow> tryE (g v) h (snd (m s)))"
  by (simp add: tryE_def bindE_def split: prod.split sum.split)

lemma tryE_await:
  "tryE (await ev (f :: 'd event list \<Rightarrow> (thrown, unit) outcome)) h s =
     (case failure_of (f (trace s)) of
        Some e \<Rightarrow> h e (s\<lparr>trace := trace s @ [ev]\<rparr>)
      | None \<Rightarrow> (Inr (), s\<lparr>trace := trace s @ [ev]\<rparr>))"
  by (simp add: tryE_def await_unit split: option.split)

lemma tryE_storeConsumers: "tryE (storeConsumers x) h s = storeConsumers x s"
  by (simp add: tryE_def storeConsumers_def)

lemma tryE_throwE: "tryE (throwE e) h s = h e s"
  by (simp add: tryE_def throwE_def)

lemma tryE_emit: "tryE (emit ev) h s = emit ev s"
  by (simp add: tryE_def emit_def)

lemma fst_await:
  "fst (await ev (f :: 'd event list \<Rightarrow> (thrown, unit) outcome) s) =
     (case failure_of (f (trace s)) of Some e \<Rightarrow> Inl e | None \<Rightarrow> Inr ())"
  by (simp add: await_unit split: option.split)

lemma snd_await: "snd (await ev f s) = s\<lparr>trace := trace s @ [ev]\<rparr>"
  by (simp add: await_def split: outcome.split promise.split)

lemma fst_floating:
  "fst (floating ev (kafkajs f) s) =
     (case f (trace s) of Throws e \<Rightarrow> Inl (ErrorObject e) | Returns p \<Rightarrow> Inr ())"
  by (simp add: floating_def kafkajs_def split: outcome.split promise.split)

lemma snd_floating:
  "snd (floating ev (kafkajs f) s) = s\<lparr>trace := trace s @ ev # unhandled (f (trace s))\<rparr>"
  by (simp add: floating_def kafkajs_def unhandled_def split: outcome.split promise.split)

lemma fst_kafkaClient_consumer:
  "fst (kafkaClient_consumer env g t s) =
     (case client_consumer env g t (trace s) of
        Some e \<Rightarrow> Inl (ErrorObject e)
      | None \<Rightarrow> Inr \<lparr>session_id = length (trace s), cfg_groupId = g, cfg_sessionTimeout = t\<rparr>)"
  by (simp add: kafkaClient_consumer_def split: option.split)

lemma snd_kafkaClient_consumer:
  "snd (kafkaClient_consumer env g t s) = s\<lparr>trace := trace s @ [ClientConsumer g t]\<rparr>"
  by (simp add: kafkaClient_consumer_def split: option.split)

lemma fst_next_ulid: "fst (next_ulid env s) = Inr (ulid env (ulid_count s))"
  by (simp add: next_ulid_def)

lemma snd_next_ulid: "snd (next_ulid env s) = s\<lparr>ulid_count := Suc (ulid_count s)\<rparr>"
  by (simp add: next_ulid_def)

lemma fst_liftE: "fst (liftE r s) = r"
  by (simp add: liftE_def)

lemma snd_liftE: "snd (liftE r s) = s"
  by (simp add: liftE_def)

lemma fst_built_in:
  "fst (built_in r s) = (case r of Inl e \<Rightarrow> Inl (ErrorObject e) | Inr v \<Rightarrow> Inr v)"
  by (simp add: built_in_def split: sum.split)

lemma snd_built_in: "snd (built_in r s) = s"
  by (simp add: built_in_def split: sum.split)

lemma fst_producer_method:
  "fst (producer_method s) =
     (if this_producer s then Inr ()
      else Inl (ErrorObject (TypeError ''Cannot read properties of undefined'')))"
  by (simp add: producer_method_def)

lemma snd_producer_method: "snd (producer_method s) = s"
  by (simp add: producer_method_def)

lemma fst_emit: "fst (emit ev s) = Inr ()"
  by (simp add: emit_def)

lemma snd_emit: "snd (emit ev s) = s\<lparr>trace := trace s @ [ev]\<rparr>"
  by (simp add: emit_def)

lemma fst_logger_activity: "fst (logger_activity msg s) = Inr (length (trace s))"
  by (simp add: logger_activity_def)

lemma snd_logger_activity:
  "snd (logger_activity msg s) = s\<lparr>trace := trace s @ [LoggerActivity msg]\<rparr>"
  by (simp add: logger_activity_def)

lemmas exec = thenE_def bindE_exec tryE_bindE_exec tryE_await tryE_storeConsumers tryE_throwE tryE_emit
  fst_await snd_await fst_floating snd_floating fst_kafkaClient_consumer snd_kafkaClient_consumer
  fst_next_ulid snd_next_ulid fst_liftE snd_liftE fst_built_in snd_built_in
  fst_producer_method snd_producer_method
  fst_emit snd_emit fst_logger_activity snd_logger_activity failure_of_kafkajs
  logger_error_def logger_progress_def logger_success_def emit_def storeConsumers_def throwE_def
  new_events_def



lemma logged_errors_append [simp]: "logged_errors (xs @ ys) = logged_errors xs @ logged_errors ys"
  by (induction xs rule: logged_errors.induct) auto

lemma logged_errors_unhandled [simp]: "logged_errors (unhandled c) = []"
  by (simp add: unhandled_def split: outcome.split promise.split)

lemmas demo_defs = env_send_rejects_def demo_env_def demo_state_def failure_of_def kafkajs_def

lemmas demo_defs2 = demo_defs env_connect_rejects_def env_consumer_throws_def demo_handler_def
  demo_context_def env_toJSON_throws_null_def

subsection \<open>send\<close>








subsection \<open>sendBatch\<close>










subsection \<open>subscribe and subscribeBatch\<close>

lemmas sub_splits = option.split outcome.split sum.split consumer_arg.split

text \<open>
  Claim C3, on the code. With a handler that is not a function, \<open>subscribe\<close> fails to its
  caller with the error "Subscriber must be a function" before any call to the broker
  and leaves the state, and so the registry, as it was. \<open>subscribeBatch\<close> makes the same
  check and throws the same error, but inside its own \<open>try\<close> block: the error is caught,
  logged under \<open>subscribeBatch\<close>, and the call returns normally to its caller. The
  registry is untouched in both.
\<close>

theorem subscribeBatch_swallows_invalid_handler:
  "subscribe env topicName NotAFunction context s =
     (Inl (ErrorObject (Error ''Subscriber must be a function'')), s) \<and>
   subscribeBatch env topicName NotAFunction context s =
     (Inr (), s\<lparr>trace := trace s @
        [LoggerError ''subscribeBatch: Error subscribing to topic: Subscriber must be a function'']\<rparr>)"
  by (simp add: subscribe_def subscribeBatch_def exec)












lemma session_scoped_unhandled [simp]: "ev \<in> set (unhandled c) \<Longrightarrow> session_scoped ctx t ev"
  by (auto simp add: unhandled_def split: outcome.splits promise.splits)

lemma subscribe_scoped:
  "\<forall>ev\<in>set (new_events s (snd (subscribe env topicName consumer context s))).
     session_scoped context topicName ev"
  by (simp add: subscribe_def exec ball_Un split: sub_splits)

lemma subscribeBatch_scoped:
  "\<forall>ev\<in>set (new_events s (snd (subscribeBatch env topicName consumer context s))).
     session_scoped context topicName ev"
  by (simp add: subscribeBatch_def exec ball_Un split: sub_splits)

lemma subscribe_subscribes:
  "\<forall>h. client_consumer env (groupId context) None h = None \<Longrightarrow>
   \<forall>k h. failure_of (consumer_connect env k h) = None \<Longrightarrow>
   ConsumerSubscribe
     \<lparr>session_id = Suc (length (trace s)), cfg_groupId = groupId context, cfg_sessionTimeout = None\<rparr>
     topicName False
   \<in> set (new_events s (snd (subscribe env topicName (Function handler) context s)))"
  by (simp add: subscribe_def exec split: sub_splits)

lemma subscribeBatch_subscribes:
  "\<forall>h. client_consumer env (groupId context) (Some 60000) h = None \<Longrightarrow>
   \<forall>k h e. consumer_connect env k h \<noteq> Throws e \<Longrightarrow>
   ConsumerSubscribe
     \<lparr>session_id = length (trace s), cfg_groupId = groupId context,
        cfg_sessionTimeout = Some 60000\<rparr>
     topicName False
   \<in> set (new_events s (snd (subscribeBatch env topicName (Function handler) context s)))"
  by (simp add: subscribeBatch_def exec split: sub_splits)

text \<open>
  Claim C8. Whatever the broker answers and whatever the arguments are, every consumer
  session that \<open>subscribe\<close> or \<open>subscribeBatch\<close> creates is created with the group id of the
  context, and every subscription they make is for the given topic with \<open>fromBeginning\<close>
  false; neither function has an argument that changes this. When the session can be
  created and connect does not fail, the subscription is made.
\<close>

theorem sessions_scoped_from_tail:
  "(\<forall>ev\<in>set (new_events s (snd (subscribe env topicName consumer context s))).
      session_scoped context topicName ev) \<and>
   (\<forall>ev\<in>set (new_events s (snd (subscribeBatch env topicName consumer context s))).
      session_scoped context topicName ev) \<and>
   ((\<forall>h. client_consumer env (groupId context) None h = None) \<and>
    (\<forall>k h. failure_of (consumer_connect env k h) = None) \<longrightarrow>
    ConsumerSubscribe
      \<lparr>session_id = Suc (length (trace s)), cfg_groupId = groupId context,
         cfg_sessionTimeout = None\<rparr>
      topicName False
    \<in> set (new_events s (snd (subscribe env topicName (Function handler) context s)))) \<and>
   ((\<forall>h. client_consumer env (groupId context) (Some 60000) h = None) \<and>
    (\<forall>k h e. consumer_connect env k h \<noteq> Throws e) \<longrightarrow>
    ConsumerSubscribe
      \<lparr>session_id = length (trace s), cfg_groupId = groupId context,
         cfg_sessionTimeout = Some 60000\<rparr>
      topicName False
    \<in> set (new_events s (snd (subscribeBatch env topicName (Function handler) context s))))"
  using subscribe_scoped [of s env topicName consumer "context"]
    subscribeBatch_scoped [of s env topicName consumer "context"]
    subscribe_subscribes [of env "context" s topicName handler]
    subscribeBatch_subscribes [of env "context" s topicName handler]
  by blast

text \<open>C8 at a broker that accepts everything.\<close>

theorem sessions_scoped_from_tail_witness:
  "ConsumerSubscribe \<lparr>session_id = 1, cfg_groupId = ''g1'', cfg_sessionTimeout = None\<rparr> ''docs'' False
     \<in> set (new_events demo_state
          (snd (subscribe demo_env ''docs'' (Function demo_handler) demo_context demo_state))) \<and>
   ConsumerSubscribe \<lparr>session_id = 0, cfg_groupId = ''g1'', cfg_sessionTimeout = Some 60000\<rparr> ''docs'' False
     \<in> set (new_events demo_state
          (snd (subscribeBatch demo_env ''docs'' (Function demo_handler) demo_context demo_state))) \<and>
   session_scoped demo_context ''docs''
     (ConsumerSubscribe \<lparr>session_id = 0, cfg_groupId = ''g1'', cfg_sessionTimeout = Some 60000\<rparr>
        ''docs'' False)"
  using sessions_scoped_from_tail [of demo_state demo_env "''docs''" "Function demo_handler"
      demo_context demo_handler]
  by (simp add: demo_defs2)

subsection \<open>The loop of eachBatch\<close>

lemma loop_done:
  "length docs \<le> i \<Longrightarrow> batch_loop env consumer topicName a n docs i s = (Inr (), s)"
  by (simp add: batch_loop.simps)

lemma loop_step_ok:
  "i < length docs \<Longrightarrow> failure_of (consumer [docs ! i] topicName (trace s)) = None \<Longrightarrow>
   failure_of (heartbeat env (trace s @ take 2 (batch_round topicName a n docs i))) = None \<Longrightarrow>
   batch_loop env consumer topicName a n docs i s =
     batch_loop env consumer topicName a n docs (Suc i)
       (s\<lparr>trace := trace s @ batch_round topicName a n docs i\<rparr>)"
  by (subst batch_loop.simps)
     (simp add: await_unit failure_of_kafkajs logger_progress_def emit_def batch_round_def)

lemma loop_step_handler_fails:
  "i < length docs \<Longrightarrow> failure_of (consumer [docs ! i] topicName (trace s)) = Some e \<Longrightarrow>
   batch_loop env consumer topicName a n docs i s =
     (Inl e, s\<lparr>trace := trace s @ [HandlerCall [docs ! i] topicName]\<rparr>)"
  by (subst batch_loop.simps) (simp add: await_unit)

lemma loop_step_heartbeat_fails:
  "i < length docs \<Longrightarrow> failure_of (consumer [docs ! i] topicName (trace s)) = None \<Longrightarrow>
   failure_of (heartbeat env (trace s @ take 2 (batch_round topicName a n docs i))) = Some e \<Longrightarrow>
   batch_loop env consumer topicName a n docs i s =
     (Inl (ErrorObject e), s\<lparr>trace := trace s @ batch_round topicName a n docs i\<rparr>)"
  by (subst batch_loop.simps)
     (simp add: await_unit failure_of_kafkajs logger_progress_def emit_def batch_round_def)

lemma rounds_from:
  "i < j \<Longrightarrow>
   concat (map (batch_round topicName a n docs) [i..<j]) =
     batch_round topicName a n docs i @ concat (map (batch_round topicName a n docs) [Suc i..<j])"
  by (simp add: upt_conv_Cons)

lemma loop_runs:
  "\<forall>j. i \<le> j \<and> j < length docs \<longrightarrow>
     failure_of (consumer [docs ! j] topicName
       (trace s @ concat (map (batch_round topicName a n docs) [i..<j]))) = None \<and>
     failure_of (heartbeat env
       (trace s @ concat (map (batch_round topicName a n docs) [i..<j]) @
        butlast (batch_round topicName a n docs j))) = None \<Longrightarrow>
   batch_loop env consumer topicName a n docs i s =
     (Inr (), s\<lparr>trace := trace s @ concat (map (batch_round topicName a n docs) [i..<length docs])\<rparr>)"
proof (induction "length docs - i" arbitrary: i s)
  case 0
  then show ?case by (simp add: loop_done)
next
  case (Suc k)
  then have lt: "i < length docs" and k: "k = length docs - Suc i" by auto
  let ?s' = "s\<lparr>trace := trace s @ batch_round topicName a n docs i\<rparr>"
  have here: "failure_of (consumer [docs ! i] topicName (trace s)) = None"
    "failure_of (heartbeat env (trace s @ butlast (batch_round topicName a n docs i))) = None"
    using Suc.prems [rule_format, of i] lt by simp_all
  have step: "batch_loop env consumer topicName a n docs i s =
     batch_loop env consumer topicName a n docs (Suc i) ?s'"
    using lt here by (intro loop_step_ok) (simp_all add: batch_round_def)
  have later: "\<forall>j. Suc i \<le> j \<and> j < length docs \<longrightarrow>
     failure_of (consumer [docs ! j] topicName
       (trace ?s' @ concat (map (batch_round topicName a n docs) [Suc i..<j]))) = None \<and>
     failure_of (heartbeat env
       (trace ?s' @ concat (map (batch_round topicName a n docs) [Suc i..<j]) @
        butlast (batch_round topicName a n docs j))) = None"
  proof (intro allI impI)
    fix j assume j: "Suc i \<le> j \<and> j < length docs"
    then have "i < j" by simp
    then show "failure_of (consumer [docs ! j] topicName
       (trace ?s' @ concat (map (batch_round topicName a n docs) [Suc i..<j]))) = None \<and>
     failure_of (heartbeat env
       (trace ?s' @ concat (map (batch_round topicName a n docs) [Suc i..<j]) @
        butlast (batch_round topicName a n docs j))) = None"
      using Suc.prems [rule_format, of j] j by (simp add: rounds_from)
  qed
  have rest: "batch_loop env consumer topicName a n docs (Suc i) ?s' =
     (Inr (), ?s'\<lparr>trace := trace ?s' @
        concat (map (batch_round topicName a n docs) [Suc i..<length docs])\<rparr>)"
    using Suc.hyps(1) [OF k later] .
  show ?case
    using lt by (simp add: step rest rounds_from)
qed


lemma loop_events:
  assumes P1: "\<And>j. j < length docs \<Longrightarrow> P (HandlerCall [docs ! j] topicName)"
    and P2: "\<And>m. P (LoggerProgress a m)"
    and P3: "P Heartbeat"
  shows "\<exists>es. trace (snd (batch_loop env consumer topicName a n docs i s)) = trace s @ es \<and>
            (\<forall>ev\<in>set es. P ev)"
proof (induction "length docs - i" arbitrary: i s)
  case 0
  then show ?case by (simp add: loop_done)
next
  case (Suc k)
  then have lt: "i < length docs" and k: "k = length docs - Suc i" by auto
  have round: "\<forall>ev\<in>set (batch_round topicName a n docs i). P ev"
    using lt P1 P2 P3 by (simp add: batch_round_def)
  show ?case
  proof (cases "failure_of (consumer [docs ! i] topicName (trace s))")
    case (Some e)
    then show ?thesis
      using lt P1 by (simp add: loop_step_handler_fails)
  next
    case None
    show ?thesis
    proof (cases "failure_of (heartbeat env (trace s @ take 2 (batch_round topicName a n docs i)))")
      case (Some e)
      then show ?thesis
        using lt None round by (simp add: loop_step_heartbeat_fails)
    next
      case hb: None
      obtain es where es: "trace (snd (batch_loop env consumer topicName a n docs (Suc i)
            (s\<lparr>trace := trace s @ batch_round topicName a n docs i\<rparr>))) =
          (trace s @ batch_round topicName a n docs i) @ es" and all: "\<forall>ev\<in>set es. P ev"
        using Suc.hyps(1) [OF k, of "s\<lparr>trace := trace s @ batch_round topicName a n docs i\<rparr>"]
        by auto
      have "trace (snd (batch_loop env consumer topicName a n docs i s)) =
          trace s @ (batch_round topicName a n docs i @ es)"
        using lt None hb es by (simp add: loop_step_ok)
      moreover have "\<forall>ev\<in>set (batch_round topicName a n docs i @ es). P ev"
        using round all by auto
      ultimately show ?thesis by blast
    qed
  qed
qed

lemma loop_first_call:
  assumes lt: "i < length docs"
  shows "\<exists>es. trace (snd (batch_loop env consumer topicName a n docs i s)) =
            trace s @ HandlerCall [docs ! i] topicName # es"
proof (cases "failure_of (consumer [docs ! i] topicName (trace s))")
  case (Some e)
  then show ?thesis using lt by (simp add: loop_step_handler_fails)
next
  case None
  show ?thesis
  proof (cases "failure_of (heartbeat env (trace s @ take 2 (batch_round topicName a n docs i)))")
    case (Some e)
    then show ?thesis
      using lt None by (simp add: loop_step_heartbeat_fails batch_round_def)
  next
    case hb: None
    obtain es where "trace (snd (batch_loop env consumer topicName a n docs (Suc i)
          (s\<lparr>trace := trace s @ batch_round topicName a n docs i\<rparr>))) =
        (trace s @ batch_round topicName a n docs i) @ es"
      using loop_events [of docs "\<lambda>ev. True" topicName a env consumer n "Suc i"
          "s\<lparr>trace := trace s @ batch_round topicName a n docs i\<rparr>"]
      by auto
    then show ?thesis
      using lt None hb by (simp add: loop_step_ok batch_round_def)
  qed
qed

lemma handler_calls_Nil [simp]: "handler_calls [] = []"
  by (simp add: handler_calls_def)

lemma heartbeats_Nil [simp]: "heartbeats [] = 0"
  by (simp add: heartbeats_def)

lemma handler_calls_Cons [simp]:
  "handler_calls (ev # es) =
     (case ev of HandlerCall ds t \<Rightarrow> [(ds, t)] | _ \<Rightarrow> []) @ handler_calls es"
  by (simp add: handler_calls_def)

lemma heartbeats_Cons [simp]:
  "heartbeats (ev # es) = (case ev of Heartbeat \<Rightarrow> 1 | _ \<Rightarrow> 0) + heartbeats es"
  by (simp add: heartbeats_def split: event.split)

lemma handler_calls_append [simp]:
  "handler_calls (xs @ ys) = handler_calls xs @ handler_calls ys"
  by (simp add: handler_calls_def)

lemma heartbeats_append [simp]: "heartbeats (xs @ ys) = heartbeats xs + heartbeats ys"
  by (simp add: heartbeats_def)

lemma handler_calls_round [simp]:
  "handler_calls (batch_round topicName a n docs i) = [([docs ! i], topicName)]"
  by (simp add: batch_round_def)

lemma heartbeats_round [simp]: "heartbeats (batch_round topicName a n docs i) = 1"
  by (simp add: batch_round_def)

lemma logged_errors_round [simp]: "logged_errors (batch_round topicName a n docs i) = []"
  by (simp add: batch_round_def)

lemma rounds_calls:
  "x \<le> length docs \<Longrightarrow>
   handler_calls (concat (map (batch_round topicName a n docs) [0..<x])) =
     map (\<lambda>d. ([d], topicName)) (take x docs)"
  by (induction x) (simp_all add: take_Suc_conv_app_nth)

lemma rounds_heartbeats:
  "heartbeats (concat (map (batch_round topicName a n docs) xs)) = length xs"
  by (induction xs) simp_all

lemma rounds_logged_errors:
  "logged_errors (concat (map (batch_round topicName a n docs) xs)) = []"
  by (induction xs) simp_all


subsection \<open>eachBatch and eachMessage\<close>

lemma eachBatch_runs:
  assumes des: "map_throwing (deserialize env) (batch_messages batch) = Inr docs"
    and ok: "\<forall>j<length docs. iteration_resolves env consumer s topicName batch docs j"
  shows "eachBatch env consumer topicName batch s =
     (Inr (), s\<lparr>trace := history_before s topicName batch docs (length docs) @
        [LoggerSuccess (length (trace s))
          (''eachBatch: Finished Batch Processing '' @ show_nat (length (batch_messages batch))
             @ '' messages in topic '' @ topicName @ ''\<newline>'')]\<rparr>)"
proof -
  let ?s1 = "s\<lparr>trace := trace s @
      [LoggerActivity
        (''eachBatch: Batch Received '' @ show_nat (length (batch_messages batch))
           @ '' messages in topic '' @ topicName @ ''\<newline>'')]\<rparr>"
  have loop: "batch_loop env consumer topicName (length (trace s)) (length (batch_messages batch))
        docs 0 ?s1 =
      (Inr (), ?s1\<lparr>trace := trace ?s1 @
         concat (map (batch_round topicName (length (trace s)) (length (batch_messages batch)) docs)
                   [0..<length docs])\<rparr>)"
    using ok by (intro loop_runs) (simp add: iteration_resolves_def history_before_def)
  show ?thesis
    using loop by (simp add: eachBatch_def exec des history_before_def)
qed





lemma history_calls:
  "x \<le> length docs \<Longrightarrow>
   handler_calls (drop (length (trace s)) (history_before s topicName batch docs x)) =
     map (\<lambda>d. ([d], topicName)) (take x docs)"
  by (simp add: history_before_def rounds_calls)

lemma history_heartbeats:
  "heartbeats (drop (length (trace s)) (history_before s topicName batch docs x)) = x"
  by (simp add: history_before_def rounds_heartbeats)

lemma history_logged_errors:
  "logged_errors (drop (length (trace s)) (history_before s topicName batch docs x)) = []"
  by (simp add: history_before_def rounds_logged_errors)

lemma history_drop:
  "length (trace s) - length (history_before s topicName batch docs x) = 0"
  by (simp add: history_before_def)

text \<open>
  Claim C1. When every payload of the batch deserializes and every iteration of the loop
  runs to its end (the handler resolves on each message and each heartbeat resolves, at
  the trace they are called at), the batch callback returns normally and its trace is
  exactly: the start of the activity, then for each index in arrival order the handler
  call on the singleton of that document, the progress line and one heartbeat, then the
  success line. Each handler call is awaited before its heartbeat is sent, and the
  heartbeat before the next handler call. So the handler is invoked once per message, in
  order, there are as many heartbeats as messages, and no error is logged. For an empty
  batch there is no handler call, no heartbeat and no error.
\<close>

theorem eachBatch_sequential_with_heartbeats:
  "(map_throwing (deserialize env) (batch_messages batch) = Inr docs \<and>
    (\<forall>j<length docs. iteration_resolves env consumer s topicName batch docs j) \<longrightarrow>
    fst (eachBatch env consumer topicName batch s) = Inr () \<and>
    trace (snd (eachBatch env consumer topicName batch s)) =
      history_before s topicName batch docs (length docs) @
      [LoggerSuccess (length (trace s))
        (''eachBatch: Finished Batch Processing '' @ show_nat (length (batch_messages batch))
           @ '' messages in topic '' @ topicName @ ''\<newline>'')] \<and>
    handler_calls (new_events s (snd (eachBatch env consumer topicName batch s))) =
      map (\<lambda>d. ([d], topicName)) docs \<and>
    heartbeats (new_events s (snd (eachBatch env consumer topicName batch s))) = length docs \<and>
    logged_errors (new_events s (snd (eachBatch env consumer topicName batch s))) = []) \<and>
   (batch_messages batch = [] \<longrightarrow>
    fst (eachBatch env consumer topicName batch s) = Inr () \<and>
    handler_calls (new_events s (snd (eachBatch env consumer topicName batch s))) = [] \<and>
    heartbeats (new_events s (snd (eachBatch env consumer topicName batch s))) = 0 \<and>
    logged_errors (new_events s (snd (eachBatch env consumer topicName batch s))) = [])"
proof (intro conjI impI)
  assume a: "map_throwing (deserialize env) (batch_messages batch) = Inr docs \<and>
    (\<forall>j<length docs. iteration_resolves env consumer s topicName batch docs j)"
  note run = eachBatch_runs [of env batch docs consumer s topicName]
  show "fst (eachBatch env consumer topicName batch s) = Inr ()"
    using a by (simp add: run)
  show "trace (snd (eachBatch env consumer topicName batch s)) =
      history_before s topicName batch docs (length docs) @
      [LoggerSuccess (length (trace s))
        (''eachBatch: Finished Batch Processing '' @ show_nat (length (batch_messages batch))
           @ '' messages in topic '' @ topicName @ ''\<newline>'')]"
    using a by (simp add: run)
  show "handler_calls (new_events s (snd (eachBatch env consumer topicName batch s))) =
      map (\<lambda>d. ([d], topicName)) docs"
    using a by (simp add: run new_events_def history_drop history_calls)
  show "heartbeats (new_events s (snd (eachBatch env consumer topicName batch s))) = length docs"
    using a by (simp add: run new_events_def history_drop history_heartbeats)
  show "logged_errors (new_events s (snd (eachBatch env consumer topicName batch s))) = []"
    using a by (simp add: run new_events_def history_drop history_logged_errors)
next
  assume e: "batch_messages batch = []"
  have run: "eachBatch env consumer topicName batch s =
     (Inr (), s\<lparr>trace := trace s @
        [LoggerActivity
          (''eachBatch: Batch Received '' @ show_nat (length (batch_messages batch))
             @ '' messages in topic '' @ topicName @ ''\<newline>''),
         LoggerSuccess (length (trace s))
          (''eachBatch: Finished Batch Processing '' @ show_nat (length (batch_messages batch))
             @ '' messages in topic '' @ topicName @ ''\<newline>'')]\<rparr>)"
    using e by (simp add: eachBatch_def exec loop_done)
  show "fst (eachBatch env consumer topicName batch s) = Inr ()"
    by (simp add: run)
  show "handler_calls (new_events s (snd (eachBatch env consumer topicName batch s))) = []"
    by (simp add: run new_events_def)
  show "heartbeats (new_events s (snd (eachBatch env consumer topicName batch s))) = 0"
    by (simp add: run new_events_def)
  show "logged_errors (new_events s (snd (eachBatch env consumer topicName batch s))) = []"
    by (simp add: run new_events_def)
qed

lemmas demo_defs3 = demo_defs2 demo_batch_def malformed_batch_def handler_fails_on_def
  demo_payload_def deserialize_def

text \<open>C1 at a batch of three messages and at the empty batch.\<close>

theorem eachBatch_sequential_with_heartbeats_witness:
  "fst (eachBatch demo_env demo_handler ''docs'' demo_batch demo_state) = Inr () \<and>
   handler_calls (new_events demo_state (snd (eachBatch demo_env demo_handler ''docs'' demo_batch demo_state))) =
     [([''{id:1}''], ''docs''), ([''{id:2}''], ''docs''), ([''{id:3}''], ''docs'')] \<and>
   heartbeats (new_events demo_state (snd (eachBatch demo_env demo_handler ''docs'' demo_batch demo_state))) = 3 \<and>
   logged_errors (new_events demo_state (snd (eachBatch demo_env demo_handler ''docs'' demo_batch demo_state))) = [] \<and>
   handler_calls (new_events demo_state (snd (eachBatch demo_env demo_handler ''docs'' empty_batch demo_state))) = [] \<and>
   heartbeats (new_events demo_state (snd (eachBatch demo_env demo_handler ''docs'' empty_batch demo_state))) = 0"
  using eachBatch_sequential_with_heartbeats [of demo_env demo_batch "[''{id:1}'', ''{id:2}'', ''{id:3}'']"
      demo_handler demo_state "''docs''"]
    eachBatch_sequential_with_heartbeats [of demo_env empty_batch "[]" demo_handler demo_state "''docs''"]
  by (simp add: demo_defs3 iteration_resolves_def history_before_def batch_round_def
        empty_batch_def)





lemma map_throwing_fails:
  "m \<in> set ms \<Longrightarrow> f m = Inl e \<Longrightarrow> \<exists>e'. map_throwing f ms = Inl e'"
  by (induction ms) (auto split: sum.splits)

lemma eachBatch_malformed:
  "map_throwing (deserialize env) (batch_messages batch) = Inl e' \<Longrightarrow>
   eachBatch env consumer topicName batch s =
     (Inr (), s\<lparr>trace := trace s @
        [LoggerActivity
          (''eachBatch: Batch Received '' @ show_nat (length (batch_messages batch))
             @ '' messages in topic '' @ topicName @ ''\<newline>''),
         LoggerError (''eachBatch: Error processing message: '' @ message e')]\<rparr>)"
  by (simp add: eachBatch_def exec)

text \<open>
  Claim C9. The batch callback deserializes the whole batch before the loop starts: when
  some payload of the batch does not deserialize, the callback logs the start of the
  activity and one error line with context \<open>eachBatch\<close>, calls the handler on no message,
  sends no heartbeat and returns normally, so that the batch is auto-resolved.
\<close>

theorem eachBatch_deserializes_first:
  "m \<in> set (batch_messages batch) \<and> deserialize env m = Inl e \<longrightarrow>
   fst (eachBatch env consumer topicName batch s) = Inr () \<and>
   handler_calls (new_events s (snd (eachBatch env consumer topicName batch s))) = [] \<and>
   heartbeats (new_events s (snd (eachBatch env consumer topicName batch s))) = 0 \<and>
   (\<exists>e'. map_throwing (deserialize env) (batch_messages batch) = Inl e' \<and>
      new_events s (snd (eachBatch env consumer topicName batch s)) =
        [LoggerActivity
          (''eachBatch: Batch Received '' @ show_nat (length (batch_messages batch))
             @ '' messages in topic '' @ topicName @ ''\<newline>''),
         LoggerError (''eachBatch: Error processing message: '' @ message e')])"
proof
  assume a: "m \<in> set (batch_messages batch) \<and> deserialize env m = Inl e"
  then obtain e' where e': "map_throwing (deserialize env) (batch_messages batch) = Inl e'"
    using map_throwing_fails [of m "batch_messages batch" "deserialize env" e] by auto
  note run = eachBatch_malformed [OF e', of consumer topicName s]
  show "fst (eachBatch env consumer topicName batch s) = Inr () \<and>
   handler_calls (new_events s (snd (eachBatch env consumer topicName batch s))) = [] \<and>
   heartbeats (new_events s (snd (eachBatch env consumer topicName batch s))) = 0 \<and>
   (\<exists>e'. map_throwing (deserialize env) (batch_messages batch) = Inl e' \<and>
      new_events s (snd (eachBatch env consumer topicName batch s)) =
        [LoggerActivity
          (''eachBatch: Batch Received '' @ show_nat (length (batch_messages batch))
             @ '' messages in topic '' @ topicName @ ''\<newline>''),
         LoggerError (''eachBatch: Error processing message: '' @ message e')])"
    using e' by (simp add: run new_events_def)
qed

text \<open>C9 at a batch whose second payload is not valid JSON.\<close>

theorem eachBatch_deserializes_first_witness:
  "fst (eachBatch demo_env demo_handler ''docs'' malformed_batch demo_state) = Inr () \<and>
   handler_calls (new_events demo_state
       (snd (eachBatch demo_env demo_handler ''docs'' malformed_batch demo_state))) = [] \<and>
   heartbeats (new_events demo_state
       (snd (eachBatch demo_env demo_handler ''docs'' malformed_batch demo_state))) = 0"
  using eachBatch_deserializes_first [of "\<lparr>msg_value = Some ''{''\<rparr>" malformed_batch demo_env
      "Error ''Unexpected end of JSON input''" demo_handler "''docs''" demo_state]
  by (simp add: demo_defs3)

lemma eachMessage_singleton:
  "\<forall>ev\<in>set (new_events s (snd (eachMessage env consumer payload s))).
     singleton_call (deserialized env [em_message payload]) (em_topic payload) ev"
  by (simp add: eachMessage_def exec dot_catch_def deserialized_def
        split: sum.split outcome.split promise.split prod.split)

lemma eachMessage_calls:
  "deserialize env (em_message payload) = Inr d \<Longrightarrow>
   HandlerCall [d] (em_topic payload)
     \<in> set (new_events s (snd (eachMessage env consumer payload s)))"
  by (simp add: eachMessage_def exec dot_catch_def
        split: sum.split outcome.split promise.split prod.split)

lemma eachBatch_singleton:
  "\<forall>ev\<in>set (new_events s (snd (eachBatch env consumer topicName batch s))).
     singleton_call (deserialized env (batch_messages batch)) topicName ev"
proof (cases "map_throwing (deserialize env) (batch_messages batch)")
  case (Inl e')
  then show ?thesis
    by (simp add: eachBatch_malformed new_events_def)
next
  case (Inr docs)
  let ?s1 = "s\<lparr>trace := trace s @
      [LoggerActivity
        (''eachBatch: Batch Received '' @ show_nat (length (batch_messages batch))
           @ '' messages in topic '' @ topicName @ ''\<newline>'')]\<rparr>"
  obtain es where es: "trace (snd (batch_loop env consumer topicName (length (trace s))
        (length (batch_messages batch)) docs 0 ?s1)) = trace ?s1 @ es"
    and all: "\<forall>ev\<in>set es. singleton_call docs topicName ev"
    using loop_events [of docs "singleton_call docs topicName" topicName "length (trace s)"
        env consumer "length (batch_messages batch)" 0 ?s1]
    by auto
  show ?thesis
    using es all Inr
    by (simp add: eachBatch_def exec deserialized_def ball_Un split: sum.split)
qed

lemma eachBatch_calls_first:
  assumes des: "map_throwing (deserialize env) (batch_messages batch) = Inr (d # ds)"
  shows "HandlerCall [d] topicName
     \<in> set (new_events s (snd (eachBatch env consumer topicName batch s)))"
proof -
  let ?s1 = "s\<lparr>trace := trace s @
      [LoggerActivity
        (''eachBatch: Batch Received '' @ show_nat (length (batch_messages batch))
           @ '' messages in topic '' @ topicName @ ''\<newline>'')]\<rparr>"
  obtain es where es: "trace (snd (batch_loop env consumer topicName (length (trace s))
        (length (batch_messages batch)) (d # ds) 0 ?s1)) =
      trace ?s1 @ HandlerCall [d] topicName # es"
    using loop_first_call [of 0 "d # ds" env consumer topicName "length (trace s)"
        "length (batch_messages batch)" ?s1]
    by auto
  show ?thesis
    using es des
    by (simp add: eachBatch_def exec split: sum.split)
qed

text \<open>
  Claim C10. Every handler call made by the \<open>eachMessage\<close> callback and by the \<open>eachBatch\<close>
  callback passes a document array of length one, holding one deserialized document of
  the delivery, together with the topic (the topic of the delivered message in
  \<open>eachMessage\<close>, the subscribed topic name in \<open>eachBatch\<close>). A message that deserializes
  in \<open>eachMessage\<close>, and the first message of a batch that deserializes, do reach the
  handler in this form.
\<close>

theorem handler_receives_singleton:
  "(\<forall>ev\<in>set (new_events s (snd (eachMessage env consumer payload s))).
      singleton_call (deserialized env [em_message payload]) (em_topic payload) ev) \<and>
   (\<forall>ev\<in>set (new_events s (snd (eachBatch env consumer topicName batch s))).
      singleton_call (deserialized env (batch_messages batch)) topicName ev) \<and>
   (deserialize env (em_message payload) = Inr d \<longrightarrow>
    HandlerCall [d] (em_topic payload)
      \<in> set (new_events s (snd (eachMessage env consumer payload s)))) \<and>
   (map_throwing (deserialize env) (batch_messages batch) = Inr (d # ds) \<longrightarrow>
    HandlerCall [d] topicName
      \<in> set (new_events s (snd (eachBatch env consumer topicName batch s))))"
  using eachMessage_singleton [of s env consumer payload]
    eachBatch_singleton [of s env consumer topicName batch]
    eachMessage_calls [of env payload d s consumer]
    eachBatch_calls_first [of env batch d ds topicName s consumer]
  by blast

text \<open>C10 at one message and at a batch of three.\<close>

theorem handler_receives_singleton_witness:
  "HandlerCall [''{id:1}''] ''docs''
     \<in> set (new_events demo_state (snd (eachMessage demo_env demo_handler demo_payload demo_state))) \<and>
   HandlerCall [''{id:1}''] ''docs''
     \<in> set (new_events demo_state (snd (eachBatch demo_env demo_handler ''docs'' demo_batch demo_state))) \<and>
   singleton_call (deserialized demo_env (batch_messages demo_batch)) ''docs''
     (HandlerCall [''{id:1}''] ''docs'')"
  using handler_receives_singleton [of demo_state demo_env demo_handler demo_payload "''docs''"
      demo_batch "''{id:1}''" "[''{id:2}'', ''{id:3}'']"]
  by (simp add: demo_defs3 deserialized_def)

end
